theory Spec2Isabelle
  imports Main
begin

section \<open>React element trees\<close>

text \<open>
  The page components of the site are TSX functions that return a tree of React
  elements. An element has a type (a host tag such as \<open>section\<close>, or a component
  imported from a library such as \<open>Card\<close>), its props in the order they are written,
  and its children. A prop without a value (\<open>draggable\<close>) is the boolean true; JSX text
  is trimmed line by line, and its character entities are decoded (\<open>&apos;\<close> is the
  apostrophe); a JSX comment \<open>{/* ... */}\<close> is an empty expression and yields no child.

  A string is the sequence of bytes the literal has in the UTF-8 source file: the ASCII
  part is written as a literal, every other character by its bytes.
\<close>

datatype elem_type = Host string | Component string

datatype prop_value = StrV string | NumV int | BoolV bool

datatype node =
    Element elem_type "(string \<times> prop_value) list" "node list"
  | Text string

fun node_type :: "node \<Rightarrow> elem_type option" where
  "node_type (Element t ps cs) = Some t"
| "node_type (Text s) = None"

fun props :: "node \<Rightarrow> (string \<times> prop_value) list" where
  "props (Element t ps cs) = ps"
| "props (Text s) = []"

fun children :: "node \<Rightarrow> node list" where
  "children (Element t ps cs) = cs"
| "children (Text s) = []"

definition get_prop :: "node \<Rightarrow> string \<Rightarrow> prop_value option" where
  "get_prop n k = map_of (props n) k"

text \<open>All nodes below a node, in document order (the node itself excluded).\<close>

fun descendants :: "node \<Rightarrow> node list" where
  "descendants (Text s) = []"
| "descendants (Element t ps cs) = concat (map (\<lambda>c. c # descendants c) cs)"

definition elements_of :: "elem_type \<Rightarrow> node \<Rightarrow> node list" where
  "elements_of t n = filter (\<lambda>d. node_type d = Some t) (descendants n)"

section \<open>The landing page\<close>

text \<open>
  \<open>src/unnamed/part_000\<close>: \<open>export default function HomePage()\<close>. The function has
  no parameter and reads nothing but its own literals.
\<close>

definition HomePage_part_000 :: "unit \<Rightarrow> node" where
  "HomePage_part_000 u =
    Element (Host ''main'') [(''className'', StrV ''flex flex-1 flex-col justify-center text-center'')]
     [Element (Host ''section'') [(''className'', StrV ''text-center py-20'')]
       [Element (Host ''div'') [(''className'', StrV ''container mx-auto px-6'')]
         [Element (Host ''h1'') [(''className'', StrV ''text-7xl text-fd-primary font-extrabold mb-4'')]
           [Text ''Android Notes by Me''],
          Element (Host ''p'') [(''className'', StrV ''text-xl text-fd-secondary-foreground mb-6'')]
           [Text ''Who am I? You don't need to know that.''],
          Element (Component ''Link'')
           [(''href'', StrV ''/docs''),
            (''className'', StrV ''hover:bg-fd-primary hover:text-fd-primary-foreground text-white px-8 py-3 rounded-lg text-lg bg-fd-primary-foreground mt-5 transition-all'')]
           [Text ''Go to docs'']]],
      Element (Host ''section'') [(''id'', StrV ''features''), (''className'', StrV ''py-16'')]
       [Element (Host ''div'') [(''className'', StrV ''container mx-auto px-6'')]
         [Element (Component ''Cards'') []
           [Element (Component ''Card'')
             [(''title'', StrV ''Kotlin OOP''),
              (''description'', StrV ''Encapsulation, inheritance, polymorphism & abstraction for Android classes''),
              (''icon'', StrV [CHR 0xF0, CHR 0x9F, CHR 0x93, CHR 0x90]),
              (''draggable'', BoolV True)] [],
            Element (Component ''Card'')
             [(''title'', StrV ''Kotlin Functions''),
              (''description'', StrV (''Declarative, higher'' @ [CHR 0xE2, CHR 0x80, CHR 0x91] @ ''order & extension functions in Android code'')),
              (''icon'', StrV [CHR 0xF0, CHR 0x9F, CHR 0x94, CHR 0xA7]),
              (''draggable'', BoolV True)] [],
            Element (Component ''Card'')
             [(''title'', StrV ''Coroutines & Flows''),
              (''description'', StrV ''Suspend, launch & Flow streams for async tasks in Android''),
              (''icon'', StrV [CHR 0xF0, CHR 0x9F, CHR 0x9A, CHR 0x80]),
              (''draggable'', BoolV True)] [],
            Element (Component ''Card'')
             [(''title'', StrV ''Conditionals & Loops''),
              (''description'', StrV ''if/when and for/while constructs for Kotlin control flow''),
              (''icon'', StrV [CHR 0xF0, CHR 0x9F, CHR 0x94, CHR 0x81]),
              (''draggable'', BoolV True)] [],
            Element (Component ''Card'')
             [(''title'', StrV ''Arrays & Lists''),
              (''description'', StrV ''Fixed & dynamic collections: Array, List, Set, Map usage''),
              (''icon'', StrV [CHR 0xF0, CHR 0x9F, CHR 0x93, CHR 0x8B]),
              (''draggable'', BoolV True)] [],
            Element (Component ''Card'')
             [(''title'', StrV ''Compose Basics''),
              (''description'', StrV ''Composable functions, state & modifiers for UI in Jetpack Compose''),
              (''icon'', StrV [CHR 0xF0, CHR 0x9F, CHR 0x8E, CHR 0xA8]),
              (''draggable'', BoolV True)] []]]]]"

text \<open>
  \<open>src/unnamed/part_001\<close>: the second \<open>HomePage\<close>. It differs from the first in the
  hero: an \<open>Image\<close> stands before the heading, and the link has other class names.
\<close>

definition HomePage_part_001 :: "unit \<Rightarrow> node" where
  "HomePage_part_001 u =
    Element (Host ''main'') [(''className'', StrV ''flex flex-1 flex-col justify-center text-center'')]
     [Element (Host ''section'') [(''className'', StrV ''text-center py-20'')]
       [Element (Host ''div'') [(''className'', StrV ''container mx-auto px-6'')]
         [Element (Component ''Image'')
           [(''src'', StrV ''/images/android-sunset-icon.png''),
            (''width'', NumV 512),
            (''height'', NumV 512),
            (''alt'', StrV ''icon''),
            (''className'', StrV ''text-center mx-auto'')] [],
          Element (Host ''h1'') [(''className'', StrV ''text-7xl text-fd-primary font-extrabold mb-4'')]
           [Text ''Android Notes by Me''],
          Element (Host ''p'') [(''className'', StrV ''text-xl text-fd-secondary-foreground mb-6'')]
           [Text ''Who am I? You don't need to know that.''],
          Element (Component ''Link'')
           [(''href'', StrV ''/docs''),
            (''className'', StrV ''dark:hover:bg-fd-primary dark:hover:text-fd-primary-foreground dark:text-white px-8 py-3 rounded-lg text-lg dark:bg-fd-primary-foreground mt-5 transition-all bg-fd-accent hover:bg-fd-primary hover:text-white text-fd-primary-foreground'')]
           [Text ''Go to docs'']]],
      Element (Host ''section'') [(''id'', StrV ''features''), (''className'', StrV ''py-16'')]
       [Element (Host ''div'') [(''className'', StrV ''container mx-auto px-6'')]
         [Element (Component ''Cards'') []
           [Element (Component ''Card'')
             [(''title'', StrV ''Kotlin OOP''),
              (''description'', StrV ''Encapsulation, inheritance, polymorphism & abstraction for Android classes''),
              (''icon'', StrV [CHR 0xF0, CHR 0x9F, CHR 0x93, CHR 0x90]),
              (''draggable'', BoolV True)] [],
            Element (Component ''Card'')
             [(''title'', StrV ''Kotlin Functions''),
              (''description'', StrV (''Declarative, higher'' @ [CHR 0xE2, CHR 0x80, CHR 0x91] @ ''order & extension functions in Android code'')),
              (''icon'', StrV [CHR 0xF0, CHR 0x9F, CHR 0x94, CHR 0xA7]),
              (''draggable'', BoolV True)] [],
            Element (Component ''Card'')
             [(''title'', StrV ''Coroutines & Flows''),
              (''description'', StrV ''Suspend, launch & Flow streams for async tasks in Android''),
              (''icon'', StrV [CHR 0xF0, CHR 0x9F, CHR 0x9A, CHR 0x80]),
              (''draggable'', BoolV True)] [],
            Element (Component ''Card'')
             [(''title'', StrV ''Conditionals & Loops''),
              (''description'', StrV ''if/when and for/while constructs for Kotlin control flow''),
              (''icon'', StrV [CHR 0xF0, CHR 0x9F, CHR 0x94, CHR 0x81]),
              (''draggable'', BoolV True)] [],
            Element (Component ''Card'')
             [(''title'', StrV ''Arrays & Lists''),
              (''description'', StrV ''Fixed & dynamic collections: Array, List, Set, Map usage''),
              (''icon'', StrV [CHR 0xF0, CHR 0x9F, CHR 0x93, CHR 0x8B]),
              (''draggable'', BoolV True)] [],
            Element (Component ''Card'')
             [(''title'', StrV ''Compose Basics''),
              (''description'', StrV ''Composable functions, state & modifiers for UI in Jetpack Compose''),
              (''icon'', StrV [CHR 0xF0, CHR 0x9F, CHR 0x8E, CHR 0xA8]),
              (''draggable'', BoolV True)] []]]]]"

section \<open>Reading a rendered page\<close>

text \<open>
  The feature section is the \<open>section\<close> element whose \<open>id\<close> is \<open>features\<close>; the hero
  is the first \<open>section\<close> of the page. The cards of a page are the \<open>Card\<close> elements
  below its feature section.
\<close>

definition is_section :: "node \<Rightarrow> bool" where
  "is_section n = (node_type n = Some (Host ''section''))"

definition feature_section :: "node \<Rightarrow> node option" where
  "feature_section page =
     find (\<lambda>d. is_section d \<and> get_prop d ''id'' = Some (StrV ''features'')) (descendants page)"

definition hero_section :: "node \<Rightarrow> node option" where
  "hero_section page = find is_section (descendants page)"

definition card_elements :: "node \<Rightarrow> node list" where
  "card_elements page =
     (case feature_section page of
        None \<Rightarrow> []
      | Some s \<Rightarrow> elements_of (Component ''Card'') s)"

text \<open>The value of a string prop; a missing prop or one of another kind has none.\<close>

definition str_prop :: "node \<Rightarrow> string \<Rightarrow> string option" where
  "str_prop n k = (case get_prop n k of Some (StrV s) \<Rightarrow> Some s | _ \<Rightarrow> None)"

definition nonempty_str_prop :: "node \<Rightarrow> string \<Rightarrow> bool" where
  "nonempty_str_prop n k = (case str_prop n k of Some s \<Rightarrow> s \<noteq> [] | None \<Rightarrow> False)"

text \<open>The FeatureCard record of the data model, read off a \<open>Card\<close> element.\<close>

record FeatureCard =
  title :: string
  description :: string
  icon :: string

definition feature_card :: "node \<Rightarrow> FeatureCard option" where
  "feature_card n =
     (case (str_prop n ''title'', str_prop n ''description'', str_prop n ''icon'') of
        (Some t, Some d, Some i) \<Rightarrow> Some \<lparr>title = t, description = d, icon = i\<rparr>
      | _ \<Rightarrow> None)"

definition feature_cards :: "node \<Rightarrow> FeatureCard option list" where
  "feature_cards page = map feature_card (card_elements page)"

definition card_titles :: "node \<Rightarrow> string list" where
  "card_titles page = List.map_filter (\<lambda>c. str_prop c ''title'') (card_elements page)"

definition card_complete :: "node \<Rightarrow> bool" where
  "card_complete c =
     (nonempty_str_prop c ''title'' \<and> nonempty_str_prop c ''description'' \<and> nonempty_str_prop c ''icon'')"

text \<open>The six cards as records, for comparison with what the pages render.\<close>

definition the_six_cards :: "FeatureCard list" where
  "the_six_cards =
    [\<lparr>title = ''Kotlin OOP'',
      description = ''Encapsulation, inheritance, polymorphism & abstraction for Android classes'',
      icon = [CHR 0xF0, CHR 0x9F, CHR 0x93, CHR 0x90]\<rparr>,
     \<lparr>title = ''Kotlin Functions'',
      description = ''Declarative, higher'' @ [CHR 0xE2, CHR 0x80, CHR 0x91] @ ''order & extension functions in Android code'',
      icon = [CHR 0xF0, CHR 0x9F, CHR 0x94, CHR 0xA7]\<rparr>,
     \<lparr>title = ''Coroutines & Flows'',
      description = ''Suspend, launch & Flow streams for async tasks in Android'',
      icon = [CHR 0xF0, CHR 0x9F, CHR 0x9A, CHR 0x80]\<rparr>,
     \<lparr>title = ''Conditionals & Loops'',
      description = ''if/when and for/while constructs for Kotlin control flow'',
      icon = [CHR 0xF0, CHR 0x9F, CHR 0x94, CHR 0x81]\<rparr>,
     \<lparr>title = ''Arrays & Lists'',
      description = ''Fixed & dynamic collections: Array, List, Set, Map usage'',
      icon = [CHR 0xF0, CHR 0x9F, CHR 0x93, CHR 0x8B]\<rparr>,
     \<lparr>title = ''Compose Basics'',
      description = ''Composable functions, state & modifiers for UI in Jetpack Compose'',
      icon = [CHR 0xF0, CHR 0x9F, CHR 0x8E, CHR 0xA8]\<rparr>]"

text \<open>
  The content of the hero: what stands inside the container of the hero section (the
  children of the section's children). The call-to-action links are the \<open>Link\<close>
  elements below the hero section.
\<close>

definition hero_items :: "node \<Rightarrow> node list" where
  "hero_items page =
     (case hero_section page of
        None \<Rightarrow> []
      | Some s \<Rightarrow> concat (map children (children s)))"

definition cta_links :: "node \<Rightarrow> node list" where
  "cta_links page =
     (case hero_section page of
        None \<Rightarrow> []
      | Some s \<Rightarrow> elements_of (Component ''Link'') s)"

definition is_docs_link :: "node \<Rightarrow> bool" where
  "is_docs_link n = (node_type n = Some (Component ''Link'') \<and> str_prop n ''href'' = Some ''/docs'')"

text \<open>
  The hero read as "a title heading, a tagline, a link to the docs index, and nothing
  else": its content is exactly an \<open>h1\<close>, a \<open>p\<close> and a \<open>Link\<close> to \<open>/docs\<close>.
\<close>

definition title_tagline_link :: "node list \<Rightarrow> bool" where
  "title_tagline_link items =
     (case items of
        [h, t, l] \<Rightarrow>
          node_type h = Some (Host ''h1'') \<and> node_type t = Some (Host ''p'') \<and> is_docs_link l
      | _ \<Rightarrow> False)"

definition hero_is_title_tagline_link :: "node \<Rightarrow> bool" where
  "hero_is_title_tagline_link page = title_tagline_link (hero_items page)"

section \<open>Glyphs of a string\<close>

text \<open>
  The icons are written in the source as UTF-8. The decoder below reads a byte sequence
  as Unicode code points: \<open>need\<close> is the number of continuation bytes still expected
  and \<open>acc\<close> the bits of the code point read so far. A sequence that ends inside a
  character, or has a continuation byte out of place, decodes to nothing. A string is a
  single glyph when it decodes to exactly one code point.
\<close>

fun utf8_run :: "nat \<Rightarrow> nat \<Rightarrow> nat list \<Rightarrow> nat list option" where
  "utf8_run need acc [] = (if need = 0 then Some [] else None)"
| "utf8_run need acc (b # bs) =
     (if need = 0 then
        (if b < 0x80 then map_option ((#) b) (utf8_run 0 0 bs)
         else if 0xC0 \<le> b \<and> b < 0xE0 then utf8_run 1 (b - 0xC0) bs
         else if 0xE0 \<le> b \<and> b < 0xF0 then utf8_run 2 (b - 0xE0) bs
         else if 0xF0 \<le> b \<and> b < 0xF8 then utf8_run 3 (b - 0xF0) bs
         else None)
      else if 0x80 \<le> b \<and> b < 0xC0 then
        (if need = 1 then map_option ((#) (acc * 64 + (b - 0x80))) (utf8_run 0 0 bs)
         else utf8_run (need - 1) (acc * 64 + (b - 0x80)) bs)
      else None)"

definition code_points :: "string \<Rightarrow> nat list option" where
  "code_points s = utf8_run 0 0 (map of_char s)"

definition single_glyph :: "string \<Rightarrow> bool" where
  "single_glyph s = (case code_points s of Some [cp] \<Rightarrow> True | _ \<Rightarrow> False)"

definition icon_is_single_glyph :: "node \<Rightarrow> bool" where
  "icon_is_single_glyph c = (case str_prop c ''icon'' of Some s \<Rightarrow> single_glyph s | None \<Rightarrow> False)"

section \<open>The root layout\<close>

text \<open>
  \<open>src/app/layout.tsx\<close>. The two font loaders come from \<open>next/font/google\<close>, which is
  not part of the repository: they are parameters of the model. A loader takes an
  options object and returns a font object; the layout reads \<open>className\<close> of the first
  and \<open>variable\<close> of the second (a loader called with a \<open>variable\<close> option returns a
  font object that has the \<open>variable\<close> field). The option of that name is the field
  \<open>variable_opt\<close> here, since a field name is a constant.
\<close>

record font_options =
  subsets :: "string list"
  variable_opt :: "string option"

record next_font =
  className :: string

record next_font_with_variable = next_font +
  variable :: string

record google_fonts =
  JetBrains_Mono :: "font_options \<Rightarrow> next_font"
  Fira_Code :: "font_options \<Rightarrow> next_font_with_variable"

definition jetbrainsMono :: "google_fonts \<Rightarrow> next_font" where
  "jetbrainsMono G = JetBrains_Mono G \<lparr>subsets = [''latin''], variable_opt = None\<rparr>"

definition firaCode :: "google_fonts \<Rightarrow> next_font_with_variable" where
  "firaCode G = Fira_Code G \<lparr>subsets = [''latin''], variable_opt = Some ''--fira-code''\<rparr>"

text \<open>\<open>Layout({ children })\<close>: the children are the nodes the router hands in.\<close>

definition Layout :: "google_fonts \<Rightarrow> node list \<Rightarrow> node" where
  "Layout G childs =
    Element (Host ''html'')
     [(''lang'', StrV ''en''),
      (''className'', StrV (className (jetbrainsMono G) @ '' '' @ variable (firaCode G))),
      (''suppressHydrationWarning'', BoolV True)]
     [Element (Host ''body'') [(''className'', StrV ''flex flex-col min-h-screen'')]
       [Element (Component ''RootProvider'') [] childs]]"

text \<open>
  The class tokens of an element: its \<open>className\<close> split at spaces, empty pieces
  dropped. \<open>tokens cur s\<close> reads \<open>s\<close> with \<open>cur\<close> the token begun so far.
\<close>

fun tokens :: "string \<Rightarrow> string \<Rightarrow> string list" where
  "tokens cur [] = (if cur = [] then [] else [cur])"
| "tokens cur (c # cs) =
     (if c = CHR '' '' then (if cur = [] then tokens [] cs else cur # tokens [] cs)
      else tokens (cur @ [c]) cs)"

definition class_tokens :: "node \<Rightarrow> string list" where
  "class_tokens n = (case str_prop n ''className'' of Some s \<Rightarrow> tokens [] s | None \<Rightarrow> [])"

section \<open>Content documents\<close>

text \<open>
  A content document is a text file, here a list of lines. Two are in the sources:
  \<open>src/content/docs/android-components.mdx\<close>, and the Jetpack Compose article that
  follows the layout in \<open>src/app/layout.tsx\<close> (from line 26 on). Each is given by its
  first four lines; the prose that follows them is a parameter.
\<close>

definition android_components_mdx :: "string list \<Rightarrow> string list" where
  "android_components_mdx body =
     [''---'',
      ''title: Android App Components'',
      ''description: Components that comprise and android app'',
      ''---''] @ body"

definition jetpack_compose_mdx :: "string list \<Rightarrow> string list" where
  "jetpack_compose_mdx body =
     [''---'',
      ''title: Jetpack Compose'',
      ''description: A guide to using jetpack compose in android.'',
      ''---''] @ body"

text \<open>
  What it means for a document to declare a field: the front-matter is the block
  between a first line \<open>---\<close> and the next line \<open>---\<close> (a document that does not
  begin with \<open>---\<close>, or never closes the block, has none), and a line \<open>key: value\<close>
  of the block declares the field \<open>key\<close>. The site itself has no code for this; the
  documentation framework parses the block when it builds the pages.
\<close>

fun front_matter_block :: "string list \<Rightarrow> string list option" where
  "front_matter_block [] = None"
| "front_matter_block (l # ls) =
     (if l = ''---'' then Some [] else map_option ((#) l) (front_matter_block ls))"

definition front_matter :: "string list \<Rightarrow> string list option" where
  "front_matter doc =
     (case doc of
        [] \<Rightarrow> None
      | l # ls \<Rightarrow> if l = ''---'' then front_matter_block ls else None)"

definition field_of_line :: "string \<Rightarrow> (string \<times> string) option" where
  "field_of_line l =
     (if CHR '':'' \<in> set l
      then Some (takeWhile (\<lambda>c. c \<noteq> CHR '':'') l,
                 dropWhile (\<lambda>c. c = CHR '' '') (tl (dropWhile (\<lambda>c. c \<noteq> CHR '':'') l)))
      else None)"

definition front_matter_fields :: "string list \<Rightarrow> (string \<times> string) list" where
  "front_matter_fields doc =
     (case front_matter doc of
        None \<Rightarrow> []
      | Some ls \<Rightarrow> List.map_filter field_of_line ls)"

definition declares :: "string list \<Rightarrow> string \<Rightarrow> bool" where
  "declares doc k = (map_of (front_matter_fields doc) k \<noteq> None)"

section \<open>The landing page as written\<close>

text \<open>
  The two \<open>HomePage\<close> functions once more, this time as the text of the source: the
  parameter list of the function and the JSX it returns, before anything is evaluated.
  An attribute is written as a string (\<open>title="..."\<close>), as an expression in braces
  (\<open>icon={"..."}\<close>, \<open>width={512}\<close>) or bare (\<open>draggable\<close>); a child is an element,
  text (given as JSX reads it: trimmed, entities decoded) or a comment in braces. An
  expression is a literal or an identifier; an identifier is how a function body reads
  a parameter, an import or a global.
\<close>

datatype js_expr = Lit prop_value | Ident string

datatype jsx_attr = AttrStr string | AttrExpr js_expr | AttrBare

datatype jsx =
    JElem elem_type "(string \<times> jsx_attr) list" "jsx list"
  | JText string
  | JComment

record js_function =
  fn_params :: "string list"
  fn_body :: jsx

definition HomePage_source_000 :: js_function where
  "HomePage_source_000 =
    \<lparr>fn_params = [],
     fn_body =
       JElem (Host ''main'')
         [(''className'', AttrStr ''flex flex-1 flex-col justify-center text-center'')]
         [JComment,
          JElem (Host ''section'')
            [(''className'', AttrStr ''text-center py-20'')]
            [JElem (Host ''div'')
               [(''className'', AttrStr ''container mx-auto px-6'')]
               [JElem (Host ''h1'')
                  [(''className'', AttrStr ''text-7xl text-fd-primary font-extrabold mb-4'')]
                  [JText ''Android Notes by Me''],
                JElem (Host ''p'')
                  [(''className'', AttrStr ''text-xl text-fd-secondary-foreground mb-6'')]
                  [JText ''Who am I? You don't need to know that.''],
                JElem (Component ''Link'')
                  [(''href'', AttrStr ''/docs''),
                   (''className'', AttrStr ''hover:bg-fd-primary hover:text-fd-primary-foreground text-white px-8 py-3 rounded-lg text-lg bg-fd-primary-foreground mt-5 transition-all'')]
                  [JText ''Go to docs'']]],
          JComment,
          JElem (Host ''section'')
            [(''id'', AttrStr ''features''),
             (''className'', AttrStr ''py-16'')]
            [JElem (Host ''div'')
               [(''className'', AttrStr ''container mx-auto px-6'')]
               [JElem (Component ''Cards'')
                  []
                  [JElem (Component ''Card'')
                     [(''title'', AttrStr ''Kotlin OOP''),
                      (''description'', AttrStr ''Encapsulation, inheritance, polymorphism & abstraction for Android classes''),
                      (''icon'', AttrExpr (Lit (StrV [CHR 0xF0, CHR 0x9F, CHR 0x93, CHR 0x90]))),
                      (''draggable'', AttrBare)]
                     [],
                   JElem (Component ''Card'')
                     [(''title'', AttrStr ''Kotlin Functions''),
                      (''description'', AttrStr (''Declarative, higher'' @ [CHR 0xE2, CHR 0x80, CHR 0x91] @ ''order & extension functions in Android code'')),
                      (''icon'', AttrStr [CHR 0xF0, CHR 0x9F, CHR 0x94, CHR 0xA7]),
                      (''draggable'', AttrBare)]
                     [],
                   JElem (Component ''Card'')
                     [(''title'', AttrStr ''Coroutines & Flows''),
                      (''description'', AttrStr ''Suspend, launch & Flow streams for async tasks in Android''),
                      (''icon'', AttrStr [CHR 0xF0, CHR 0x9F, CHR 0x9A, CHR 0x80]),
                      (''draggable'', AttrBare)]
                     [],
                   JElem (Component ''Card'')
                     [(''title'', AttrStr ''Conditionals & Loops''),
                      (''description'', AttrStr ''if/when and for/while constructs for Kotlin control flow''),
                      (''icon'', AttrStr [CHR 0xF0, CHR 0x9F, CHR 0x94, CHR 0x81]),
                      (''draggable'', AttrBare)]
                     [],
                   JElem (Component ''Card'')
                     [(''title'', AttrStr ''Arrays & Lists''),
                      (''description'', AttrStr ''Fixed & dynamic collections: Array, List, Set, Map usage''),
                      (''icon'', AttrStr [CHR 0xF0, CHR 0x9F, CHR 0x93, CHR 0x8B]),
                      (''draggable'', AttrBare)]
                     [],
                   JElem (Component ''Card'')
                     [(''title'', AttrStr ''Compose Basics''),
                      (''description'', AttrStr ''Composable functions, state & modifiers for UI in Jetpack Compose''),
                      (''icon'', AttrStr [CHR 0xF0, CHR 0x9F, CHR 0x8E, CHR 0xA8]),
                      (''draggable'', AttrBare)]
                     []]]]]\<rparr>"

definition HomePage_source_001 :: js_function where
  "HomePage_source_001 =
    \<lparr>fn_params = [],
     fn_body =
       JElem (Host ''main'')
         [(''className'', AttrStr ''flex flex-1 flex-col justify-center text-center'')]
         [JComment,
          JElem (Host ''section'')
            [(''className'', AttrStr ''text-center py-20'')]
            [JElem (Host ''div'')
               [(''className'', AttrStr ''container mx-auto px-6'')]
               [JElem (Component ''Image'')
                  [(''src'', AttrExpr (Lit (StrV ''/images/android-sunset-icon.png''))),
                   (''width'', AttrExpr (Lit (NumV 512))),
                   (''height'', AttrExpr (Lit (NumV 512))),
                   (''alt'', AttrStr ''icon''),
                   (''className'', AttrStr ''text-center mx-auto'')]
                  [],
                JElem (Host ''h1'')
                  [(''className'', AttrStr ''text-7xl text-fd-primary font-extrabold mb-4'')]
                  [JText ''Android Notes by Me''],
                JElem (Host ''p'')
                  [(''className'', AttrStr ''text-xl text-fd-secondary-foreground mb-6'')]
                  [JText ''Who am I? You don't need to know that.''],
                JElem (Component ''Link'')
                  [(''href'', AttrStr ''/docs''),
                   (''className'', AttrStr ''dark:hover:bg-fd-primary dark:hover:text-fd-primary-foreground dark:text-white px-8 py-3 rounded-lg text-lg dark:bg-fd-primary-foreground mt-5 transition-all bg-fd-accent hover:bg-fd-primary hover:text-white text-fd-primary-foreground'')]
                  [JText ''Go to docs'']]],
          JComment,
          JElem (Host ''section'')
            [(''id'', AttrStr ''features''),
             (''className'', AttrStr ''py-16'')]
            [JElem (Host ''div'')
               [(''className'', AttrStr ''container mx-auto px-6'')]
               [JElem (Component ''Cards'')
                  []
                  [JElem (Component ''Card'')
                     [(''title'', AttrStr ''Kotlin OOP''),
                      (''description'', AttrStr ''Encapsulation, inheritance, polymorphism & abstraction for Android classes''),
                      (''icon'', AttrExpr (Lit (StrV [CHR 0xF0, CHR 0x9F, CHR 0x93, CHR 0x90]))),
                      (''draggable'', AttrBare)]
                     [],
                   JElem (Component ''Card'')
                     [(''title'', AttrStr ''Kotlin Functions''),
                      (''description'', AttrStr (''Declarative, higher'' @ [CHR 0xE2, CHR 0x80, CHR 0x91] @ ''order & extension functions in Android code'')),
                      (''icon'', AttrStr [CHR 0xF0, CHR 0x9F, CHR 0x94, CHR 0xA7]),
                      (''draggable'', AttrBare)]
                     [],
                   JElem (Component ''Card'')
                     [(''title'', AttrStr ''Coroutines & Flows''),
                      (''description'', AttrStr ''Suspend, launch & Flow streams for async tasks in Android''),
                      (''icon'', AttrStr [CHR 0xF0, CHR 0x9F, CHR 0x9A, CHR 0x80]),
                      (''draggable'', AttrBare)]
                     [],
                   JElem (Component ''Card'')
                     [(''title'', AttrStr ''Conditionals & Loops''),
                      (''description'', AttrStr ''if/when and for/while constructs for Kotlin control flow''),
                      (''icon'', AttrStr [CHR 0xF0, CHR 0x9F, CHR 0x94, CHR 0x81]),
                      (''draggable'', AttrBare)]
                     [],
                   JElem (Component ''Card'')
                     [(''title'', AttrStr ''Arrays & Lists''),
                      (''description'', AttrStr ''Fixed & dynamic collections: Array, List, Set, Map usage''),
                      (''icon'', AttrStr [CHR 0xF0, CHR 0x9F, CHR 0x93, CHR 0x8B]),
                      (''draggable'', AttrBare)]
                     [],
                   JElem (Component ''Card'')
                     [(''title'', AttrStr ''Compose Basics''),
                      (''description'', AttrStr ''Composable functions, state & modifiers for UI in Jetpack Compose''),
                      (''icon'', AttrStr [CHR 0xF0, CHR 0x9F, CHR 0x8E, CHR 0xA8]),
                      (''draggable'', AttrBare)]
                     []]]]]\<rparr>"

text \<open>
  Evaluation of JSX in an environment, which gives each identifier in scope its value
  in this run. Reading an identifier that is not bound is a ReferenceError: the render
  has no result. A comment yields no child.
\<close>

type_synonym js_env = "string \<Rightarrow> prop_value option"

fun eval_expr :: "js_env \<Rightarrow> js_expr \<Rightarrow> prop_value option" where
  "eval_expr env (Lit v) = Some v"
| "eval_expr env (Ident x) = env x"

fun eval_attr :: "js_env \<Rightarrow> jsx_attr \<Rightarrow> prop_value option" where
  "eval_attr env (AttrStr s) = Some (StrV s)"
| "eval_attr env (AttrExpr e) = eval_expr env e"
| "eval_attr env AttrBare = Some (BoolV True)"

fun render :: "js_env \<Rightarrow> jsx \<Rightarrow> node list option" where
  "render env (JText s) = Some [Text s]"
| "render env JComment = Some []"
| "render env (JElem t attrs cs) =
     (case those (map (\<lambda>(k, a). map_option (Pair k) (eval_attr env a)) attrs) of
        None \<Rightarrow> None
      | Some ps \<Rightarrow>
          (case those (map (render env) cs) of
             None \<Rightarrow> None
           | Some css \<Rightarrow> Some [Element t ps (concat css)]))"

text \<open>JSX all of whose expressions are literals.\<close>

fun expr_literal :: "js_expr \<Rightarrow> bool" where
  "expr_literal (Lit v) = True"
| "expr_literal (Ident x) = False"

fun attr_literal :: "jsx_attr \<Rightarrow> bool" where
  "attr_literal (AttrStr s) = True"
| "attr_literal (AttrExpr e) = expr_literal e"
| "attr_literal AttrBare = True"

fun literal_only :: "jsx \<Rightarrow> bool" where
  "literal_only (JText s) = True"
| "literal_only JComment = True"
| "literal_only (JElem t attrs cs) =
     (list_all (\<lambda>(k, a). attr_literal a) attrs \<and> list_all literal_only cs)"

section \<open>Evaluation of the two pages\<close>

lemmas page_eval =
  feature_section_def hero_section_def card_elements_def elements_of_def is_section_def
  get_prop_def str_prop_def

lemmas card_eval =
  card_titles_def card_complete_def nonempty_str_prop_def

lemmas hero_eval =
  hero_items_def cta_links_def is_docs_link_def title_tagline_link_def
  hero_is_title_tagline_link_def

lemmas glyph_eval =
  code_points_def single_glyph_def icon_is_single_glyph_def

lemma feature_cards_part_000:
  "feature_cards (HomePage_part_000 u) = map Some the_six_cards"
  by (simp add: HomePage_part_000_def feature_cards_def feature_card_def the_six_cards_def page_eval)

lemma feature_cards_part_001:
  "feature_cards (HomePage_part_001 u) = map Some the_six_cards"
  by (simp add: HomePage_part_001_def feature_cards_def feature_card_def the_six_cards_def page_eval)

lemma hero_items_types_part_000:
  "map node_type (hero_items (HomePage_part_000 u)) =
     [Some (Host ''h1''), Some (Host ''p''), Some (Component ''Link'')]"
  by (simp add: HomePage_part_000_def page_eval hero_eval)

lemma hero_items_types_part_001:
  "map node_type (hero_items (HomePage_part_001 u)) =
     [Some (Component ''Image''), Some (Host ''h1''), Some (Host ''p''), Some (Component ''Link'')]"
  by (simp add: HomePage_part_001_def page_eval hero_eval)

section \<open>The feature cards\<close>

text \<open>
  Claim C1. In both variants of the landing page, for every render, the feature section
  holds exactly six \<open>Card\<close> elements, and each of them has a non-empty title, a
  non-empty description and a non-empty icon, all three of them strings. The page has
  no \<open>Card\<close> outside the feature section.
\<close>

theorem landing_page_six_complete_cards:
  "length (card_elements (HomePage_part_000 u)) = 6
   \<and> list_all card_complete (card_elements (HomePage_part_000 u))
   \<and> elements_of (Component ''Card'') (HomePage_part_000 u) = card_elements (HomePage_part_000 u)
   \<and> length (card_elements (HomePage_part_001 v)) = 6
   \<and> list_all card_complete (card_elements (HomePage_part_001 v))
   \<and> elements_of (Component ''Card'') (HomePage_part_001 v) = card_elements (HomePage_part_001 v)"
  by (simp add: HomePage_part_000_def HomePage_part_001_def page_eval card_eval)

text \<open>
  Claim C2. A render of the landing page (either variant) gives a card list of length
  6, and the set of the cards' titles is exactly the six titles of the scenario: none
  is missing and no other occurs.
\<close>

theorem landing_page_title_set:
  "length (card_elements (HomePage_part_000 u)) = 6
   \<and> length (card_titles (HomePage_part_000 u)) = 6
   \<and> set (card_titles (HomePage_part_000 u)) =
       {''Kotlin OOP'', ''Kotlin Functions'', ''Coroutines & Flows'', ''Conditionals & Loops'',
        ''Arrays & Lists'', ''Compose Basics''}
   \<and> length (card_elements (HomePage_part_001 v)) = 6
   \<and> length (card_titles (HomePage_part_001 v)) = 6
   \<and> set (card_titles (HomePage_part_001 v)) =
       {''Kotlin OOP'', ''Kotlin Functions'', ''Coroutines & Flows'', ''Conditionals & Loops'',
        ''Arrays & Lists'', ''Compose Basics''}"
  by (simp add: HomePage_part_000_def HomePage_part_001_def page_eval card_eval)

text \<open>
  Claim C9. In both variants the icon of each of the six cards is a single glyph: its
  UTF-8 bytes decode to exactly one Unicode code point. The six code points are
  U+1F4D0, U+1F527, U+1F680, U+1F501, U+1F4CB and U+1F3A8, in the order of the cards.
\<close>

theorem card_icons_single_glyph:
  "list_all icon_is_single_glyph (card_elements (HomePage_part_000 u))
   \<and> list_all icon_is_single_glyph (card_elements (HomePage_part_001 v))
   \<and> map (\<lambda>c. map_option code_points (str_prop c ''icon'')) (card_elements (HomePage_part_000 u))
       = map (\<lambda>cp. Some (Some [cp])) [0x1F4D0, 0x1F527, 0x1F680, 0x1F501, 0x1F4CB, 0x1F3A8]
   \<and> map (\<lambda>c. map_option code_points (str_prop c ''icon'')) (card_elements (HomePage_part_001 v))
       = map (\<lambda>cp. Some (Some [cp])) [0x1F4D0, 0x1F527, 0x1F680, 0x1F501, 0x1F4CB, 0x1F3A8]"
  by (simp add: HomePage_part_000_def HomePage_part_001_def page_eval glyph_eval)

text \<open>
  Claim C10. The two variants of the landing page render the same card list: the
  \<open>Card\<close> elements are equal with all their props and in the same order, and so are
  the six records (title, description, icon) read off them.
\<close>

theorem home_page_variants_same_cards:
  "card_elements (HomePage_part_000 u) = card_elements (HomePage_part_001 v)
   \<and> feature_cards (HomePage_part_000 u) = feature_cards (HomePage_part_001 v)
   \<and> feature_cards (HomePage_part_000 u) = map Some the_six_cards"
proof -
  have "card_elements (HomePage_part_000 u) = card_elements (HomePage_part_001 v)"
    by (simp add: HomePage_part_000_def HomePage_part_001_def page_eval)
  then show ?thesis
    by (simp add: feature_cards_def feature_cards_part_001 [unfolded feature_cards_def])
qed

section \<open>The hero and its link\<close>

text \<open>
  Claim C3. In every render of either variant, the hero has exactly one \<open>Link\<close>, and
  its \<open>href\<close> is the documentation index path \<open>/docs\<close>; the page has no other
  \<open>Link\<close>.
\<close>

theorem cta_link_points_to_docs:
  "map (\<lambda>l. str_prop l ''href'') (cta_links (HomePage_part_000 u)) = [Some ''/docs'']
   \<and> map (\<lambda>l. str_prop l ''href'') (cta_links (HomePage_part_001 v)) = [Some ''/docs'']
   \<and> elements_of (Component ''Link'') (HomePage_part_000 u) = cta_links (HomePage_part_000 u)
   \<and> elements_of (Component ''Link'') (HomePage_part_001 v) = cta_links (HomePage_part_001 v)"
  by (simp add: HomePage_part_000_def HomePage_part_001_def page_eval hero_eval)

text \<open>
  Claim C8, as stated: the hero consists of a title heading, a tagline and a link to the
  docs index, and of nothing else. The second variant refutes it: its hero begins with
  an \<open>Image\<close>.
\<close>

theorem hero_part_001_not_only_title_tagline_link:
  "\<not> hero_is_title_tagline_link (HomePage_part_001 ())"
  by (simp add: HomePage_part_001_def page_eval hero_eval)

text \<open>
  Claim C8, amended. In both variants the hero holds a title heading, a tagline and a
  link to the docs index, in this order. In the first variant it holds nothing else; in
  the second it holds one more element, an \<open>Image\<close>, before the heading.
\<close>

theorem hero_contents:
  "hero_is_title_tagline_link (HomePage_part_000 u)
   \<and> (case hero_items (HomePage_part_001 v) of
         [] \<Rightarrow> False
       | i # rest \<Rightarrow> node_type i = Some (Component ''Image'') \<and> title_tagline_link rest)"
  by (simp add: HomePage_part_000_def HomePage_part_001_def page_eval hero_eval)

section \<open>The landing page is a function of its literals\<close>

lemma eval_attr_literal:
  assumes "attr_literal a"
  shows "eval_attr env a = eval_attr env' a"
proof (cases a)
  case (AttrExpr e)
  with assms show ?thesis by (cases e) auto
qed auto

text \<open>JSX without identifiers renders the same in every environment.\<close>

lemma literal_only_render: "literal_only j \<Longrightarrow> render env j = render env' j"
proof (induction j)
  case (JElem t attrs cs)
  have a: "map (\<lambda>(k, a). map_option (Pair k) (eval_attr env a)) attrs
         = map (\<lambda>(k, a). map_option (Pair k) (eval_attr env' a)) attrs"
  proof (rule map_cong [OF refl])
    fix x assume x: "x \<in> set attrs"
    obtain k a where ka: "x = (k, a)" by (cases x)
    from x ka JElem.prems have "attr_literal a" by (auto simp: list_all_iff)
    then have "eval_attr env a = eval_attr env' a" by (rule eval_attr_literal)
    with ka show "(case x of (k, a) \<Rightarrow> map_option (Pair k) (eval_attr env a))
        = (case x of (k, a) \<Rightarrow> map_option (Pair k) (eval_attr env' a))" by simp
  qed
  have c: "map (render env) cs = map (render env') cs"
    using JElem by (auto simp: list_all_iff)
  show ?case unfolding render.simps a c by (rule refl)
qed simp_all

text \<open>
  Claim C7. The landing page takes no input and is a function of its literals alone. In
  both variants \<open>HomePage\<close> declares no parameter and every expression of its JSX is a
  literal, so it reads no identifier; any two renders, in whatever two environments,
  give the same result; and that result is no error but the tree evaluated above.
\<close>

theorem home_page_pure_function_of_literals:
  "fn_params HomePage_source_000 = []
   \<and> literal_only (fn_body HomePage_source_000)
   \<and> render env (fn_body HomePage_source_000) = render env' (fn_body HomePage_source_000)
   \<and> render env (fn_body HomePage_source_000) = Some [HomePage_part_000 u]
   \<and> fn_params HomePage_source_001 = []
   \<and> literal_only (fn_body HomePage_source_001)
   \<and> render env (fn_body HomePage_source_001) = render env' (fn_body HomePage_source_001)
   \<and> render env (fn_body HomePage_source_001) = Some [HomePage_part_001 v]"
proof -
  have l0: "literal_only (fn_body HomePage_source_000)"
    by (simp add: HomePage_source_000_def)
  have l1: "literal_only (fn_body HomePage_source_001)"
    by (simp add: HomePage_source_001_def)
  have p: "fn_params HomePage_source_000 = []" "fn_params HomePage_source_001 = []"
    by (simp_all add: HomePage_source_000_def HomePage_source_001_def)
  have r0: "render env (fn_body HomePage_source_000) = Some [HomePage_part_000 u]"
    by (simp add: HomePage_source_000_def HomePage_part_000_def)
  have r1: "render env (fn_body HomePage_source_001) = Some [HomePage_part_001 v]"
    by (simp add: HomePage_source_001_def HomePage_part_001_def)
  from l0 l1 p r0 r1 literal_only_render [OF l0, of env env'] literal_only_render [OF l1, of env env']
  show ?thesis by simp
qed

section \<open>The root layout and its children\<close>

lemma tokens_append_space: "tokens cur (a @ CHR '' '' # b) = tokens cur a @ tokens [] b"
  by (induction a arbitrary: cur) auto

lemma props_Layout:
  "props (Layout G childs) =
     [(''lang'', StrV ''en''),
      (''className'', StrV (className (jetbrainsMono G) @ '' '' @ variable (firaCode G))),
      (''suppressHydrationWarning'', BoolV True)]"
  by (simp add: Layout_def)

text \<open>
  Claim C4. Whatever children the layout is given, the \<open>html\<close> element has the same
  language attribute, the same \<open>className\<close> and the same class tokens; indeed all its
  props are the same.
\<close>

theorem layout_html_props_independent_of_children:
  "get_prop (Layout G childs) ''lang'' = get_prop (Layout G childs') ''lang''
   \<and> get_prop (Layout G childs) ''className'' = get_prop (Layout G childs') ''className''
   \<and> class_tokens (Layout G childs) = class_tokens (Layout G childs')
   \<and> props (Layout G childs) = props (Layout G childs')"
  by (simp add: get_prop_def class_tokens_def str_prop_def props_Layout)

text \<open>
  Claim C5. For all children, the layout's root is the \<open>html\<close> element, its language
  attribute is \<open>en\<close>, and its \<open>className\<close> is the class name of the font that
  \<open>JetBrains_Mono\<close> loads for the subset \<open>latin\<close>, a space, and the CSS-variable class
  of the font that \<open>Fira_Code\<close> loads for the subset \<open>latin\<close> with the variable
  \<open>--fira-code\<close>: its class tokens are the tokens of the first followed by the tokens
  of the second.
\<close>

theorem layout_lang_en_and_both_fonts:
  "node_type (Layout G childs) = Some (Host ''html'')
   \<and> get_prop (Layout G childs) ''lang'' = Some (StrV ''en'')
   \<and> get_prop (Layout G childs) ''className'' =
       Some (StrV (className (JetBrains_Mono G \<lparr>subsets = [''latin''], variable_opt = None\<rparr>)
                   @ '' '' @
                   variable (Fira_Code G \<lparr>subsets = [''latin''], variable_opt = Some ''--fira-code''\<rparr>)))
   \<and> class_tokens (Layout G childs) =
       tokens [] (className (JetBrains_Mono G \<lparr>subsets = [''latin''], variable_opt = None\<rparr>))
       @ tokens [] (variable (Fira_Code G \<lparr>subsets = [''latin''], variable_opt = Some ''--fira-code''\<rparr>))"
proof -
  have "node_type (Layout G childs) = Some (Host ''html'')"
    by (simp add: Layout_def)
  moreover have "class_tokens (Layout G childs) =
      tokens [] (className (JetBrains_Mono G \<lparr>subsets = [''latin''], variable_opt = None\<rparr>))
      @ tokens [] (variable (Fira_Code G \<lparr>subsets = [''latin''], variable_opt = Some ''--fira-code''\<rparr>))"
    by (simp add: class_tokens_def str_prop_def get_prop_def props_Layout tokens_append_space
        jetbrainsMono_def firaCode_def)
  ultimately show ?thesis
    by (simp add: get_prop_def props_Layout jetbrainsMono_def firaCode_def)
qed

section \<open>Front-matter of the content documents\<close>

lemmas front_matter_eval =
  front_matter_fields_def front_matter_def field_of_line_def

text \<open>
  Claim C6. Each content document in the sources declares a title and a description in
  its front-matter, whatever prose follows the block: the Android components article
  and the Jetpack Compose article. The fields read are the ones written in the files.
\<close>

theorem content_documents_declare_title_and_description:
  "declares (android_components_mdx body) ''title''
   \<and> declares (android_components_mdx body) ''description''
   \<and> declares (jetpack_compose_mdx body') ''title''
   \<and> declares (jetpack_compose_mdx body') ''description''
   \<and> front_matter_fields (android_components_mdx body) =
       [(''title'', ''Android App Components''),
        (''description'', ''Components that comprise and android app'')]
   \<and> front_matter_fields (jetpack_compose_mdx body') =
       [(''title'', ''Jetpack Compose''),
        (''description'', ''A guide to using jetpack compose in android.'')]"
  by (simp add: declares_def front_matter_eval android_components_mdx_def jetpack_compose_mdx_def)

end
